theory Spec2Isabelle
  imports Main
begin

section \<open>Python strings, paths and errors\<close>

text \<open>
  A Python \<open>str\<close> is modelled as a \<open>string\<close> whose characters are the code points
  below 256. The exceptions the menu program can raise are values of \<open>error\<close>:
  \<open>IndexError\<close> from the subscript \<open>[1]\<close>; \<open>FileNotFoundError\<close> from \<open>open\<close> on a path
  that does not exist; \<open>ReadError\<close> with the exception that \<open>open\<close>, or the \<open>read\<close>
  after it, raises on a path that exists and cannot be read as text; and \<open>EOFError\<close>
  from \<open>input\<close> at the end of standard input. The errors of \<open>open\<close> carry the path.

  A path that exists can fail in these ways: \<open>PermissionError\<close> (no permission to
  read), \<open>IsADirectoryError\<close> (the path is a directory), \<open>NotADirectoryError\<close> (a
  parent of the path is not a directory), \<open>UnicodeDecodeError\<close> (the bytes of the
  file are not text in the encoding \<open>open\<close> uses; raised by \<open>read\<close>) and \<open>OSError\<close> for
  every other error of the operating system.
\<close>

type_synonym path = string

datatype failure =
  PermissionError | IsADirectoryError | NotADirectoryError | UnicodeDecodeError | OSError

datatype error = IndexError | FileNotFoundError path | ReadError failure path | EOFError

definition nl :: string where
  "nl = [CHR 0x0A]"

text \<open>\<open>str.isspace\<close> on one character: the white space that \<open>str.strip()\<close> removes.\<close>

definition isspace :: "char \<Rightarrow> bool" where
  "isspace c =
     (let n = (of_char c :: nat)
      in (9 \<le> n \<and> n \<le> 13) \<or> (28 \<le> n \<and> n \<le> 32) \<or> n = 133 \<or> n = 160)"

definition str_strip :: "string \<Rightarrow> string" where
  "str_strip s = rev (dropWhile isspace (rev (dropWhile isspace s)))"

definition lower_char :: "char \<Rightarrow> char" where
  "lower_char c =
     (let n = (of_char c :: nat)
      in if (65 \<le> n \<and> n \<le> 90) \<or> (192 \<le> n \<and> n \<le> 222 \<and> n \<noteq> 215)
         then char_of (n + 32) else c)"

definition str_lower :: "string \<Rightarrow> string" where
  "str_lower s = map lower_char s"

text \<open>
  \<open>s.split(sep)\<close> for a one-character separator: the pieces between the occurrences of
  the separator, left to right; a string without the separator gives one piece.
\<close>

fun split_acc :: "char \<Rightarrow> string \<Rightarrow> string \<Rightarrow> string list" where
  "split_acc sep acc [] = [rev acc]"
| "split_acc sep acc (c # cs) =
     (if c = sep then rev acc # split_acc sep [] cs else split_acc sep (c # acc) cs)"

definition str_split :: "string \<Rightarrow> char \<Rightarrow> string list" where
  "str_split s sep = split_acc sep [] s"

text \<open>\<open>os.path.join(a, b)\<close> with the separator \<open>/\<close>.\<close>

definition path_join :: "path \<Rightarrow> string \<Rightarrow> path" where
  "path_join a b =
     (if take 1 b = ''/'' then b
      else if a = [] \<or> last a = CHR ''/'' then a @ b
      else a @ ''/'' @ b)"

section \<open>The terminal and the file system\<close>

text \<open>
  What the file system holds at a path: a file that can be opened and read as text,
  with its text, or something that cannot be, with the exception that says why. A path
  outside the domain of the file system does not exist.
\<close>

datatype node = Text string | Unreadable failure

text \<open>
  The world the program runs in: the file system, the lines still to be read from
  standard input, everything written to standard output so far, and the paths \<open>open\<close> has
  been called on, in order. Writing to standard output is taken to succeed.
\<close>

record world =
  files :: "path \<rightharpoonup> node"
  stdin :: "string list"
  out :: string
  opened :: "path list"

definition print :: "string \<Rightarrow> world \<Rightarrow> world" where
  "print s w = w\<lparr>out := out w @ s @ nl\<rparr>"

text \<open>
  \<open>input(prompt)\<close>: writes the prompt, then takes the next line of standard input (a
  line comes without its line end); at the end of the input it raises \<open>EOFError\<close>.
\<close>

definition input :: "string \<Rightarrow> world \<Rightarrow> (error + string) \<times> world" where
  "input prompt w =
     (let w' = w\<lparr>out := out w @ prompt\<rparr>
      in case stdin w' of
           [] \<Rightarrow> (Inl EOFError, w')
         | l # ls \<Rightarrow> (Inr l, w'\<lparr>stdin := ls\<rparr>))"

text \<open>
  What \<open>open(p, "r")\<close> followed by \<open>read()\<close> gives on a file system: the whole text of
  the file, or the exception of the first of the two calls that fails.
\<close>

definition read_file :: "(path \<rightharpoonup> node) \<Rightarrow> path \<Rightarrow> error + string" where
  "read_file fs p =
     (case fs p of
        None \<Rightarrow> Inl (FileNotFoundError p)
      | Some (Text content) \<Rightarrow> Inr content
      | Some (Unreadable f) \<Rightarrow> Inl (ReadError f p))"

text \<open>
  \<open>with open(p, "r") as file: ... file.read()\<close>. Whether it is \<open>open\<close> or \<open>read\<close> that
  fails, the exception leaves the \<open>with\<close> block before anything is printed.
\<close>

definition open_read :: "path \<Rightarrow> world \<Rightarrow> (error + string) \<times> world" where
  "open_read p w = (read_file (files w) p, w\<lparr>opened := opened w @ [p]\<rparr>)"

section \<open>main.py\<close>

definition display_menu :: "world \<Rightarrow> world" where
  "display_menu w =
     fold print
       [''Welcome to the SOLID Principles Interactive Demo!'',
        ''Please choose a principle to explore:'',
        ''1. Single Responsibility Principle (SRP)'',
        ''2. Open/Closed Principle (OCP)'',
        ''3. Liskov Substitution Principle (LSP)'',
        ''4. Interface Segregation Principle (ISP)'',
        ''5. Dependency Inversion Principle (DIP)'',
        ''6. Exit''] w"

text \<open>\<open>principle.split('-')[1].lower()\<close>; the subscript raises on a list of one piece.\<close>

definition shortname :: "string \<Rightarrow> error + string" where
  "shortname principle =
     (case str_split principle CHR ''-'' of
        _ # t # _ \<Rightarrow> Inr (str_lower t)
      | _ \<Rightarrow> Inl IndexError)"

text \<open>The two assignments at the head of \<open>load_example\<close>: the bad and the good path.\<close>

definition example_paths :: "string \<Rightarrow> error + (path \<times> path)" where
  "example_paths principle =
     (let principle_path = principle
      in case shortname principle of
           Inl e \<Rightarrow> Inl e
         | Inr s \<Rightarrow>
             (let bad_example = path_join principle_path (''bad_'' @ s @ ''.py'')
              in case shortname principle of
                   Inl e \<Rightarrow> Inl e
                 | Inr s' \<Rightarrow>
                     (let good_example = path_join principle_path (''good_'' @ s' @ ''.py'')
                      in Inr (bad_example, good_example))))"

definition load_example :: "string \<Rightarrow> world \<Rightarrow> (error + unit) \<times> world" where
  "load_example principle w =
     (case example_paths principle of
        Inl e \<Rightarrow> (Inl e, w)
      | Inr (bad_example, good_example) \<Rightarrow>
          (let w1 = print (nl @ ''--- Bad Example ---'') w
           in case open_read bad_example w1 of
                (Inl e, w2) \<Rightarrow> (Inl e, w2)
              | (Inr content, w2) \<Rightarrow>
                  (let w3 = print content w2;
                       w4 = print (nl @ ''--- Good Example ---'') w3
                   in case open_read good_example w4 of
                        (Inl e, w5) \<Rightarrow> (Inl e, w5)
                      | (Inr content', w5) \<Rightarrow> (Inr (), print content' w5))))"

text \<open>
  One pass through the body of \<open>while True\<close> in \<open>main\<close>: the loop goes on, is left by
  \<open>break\<close>, or is left by an exception that nothing catches.
\<close>

datatype ctl = Continue | Break | Raise error

definition run_example :: "string \<Rightarrow> world \<Rightarrow> ctl \<times> world" where
  "run_example principle w =
     (case load_example principle w of
        (Inl e, w') \<Rightarrow> (Raise e, w')
      | (Inr _, w') \<Rightarrow> (Continue, w'))"

definition iteration :: "world \<Rightarrow> ctl \<times> world" where
  "iteration w =
     (let w1 = display_menu w
      in case input ''Enter your choice: '' w1 of
           (Inl e, w2) \<Rightarrow> (Raise e, w2)
         | (Inr line, w2) \<Rightarrow>
             (let choice = str_strip line
              in if choice = ''1'' then run_example ''1-srp'' w2
                 else if choice = ''2'' then run_example ''2-ocp'' w2
                 else if choice = ''3'' then run_example ''3-lsp'' w2
                 else if choice = ''4'' then run_example ''4-isp'' w2
                 else if choice = ''5'' then run_example ''5-dip'' w2
                 else if choice = ''6'' then (Break, print ''Goodbye!'' w2)
                 else (Continue, print ''Invalid choice, please try again.'' w2)))"

datatype outcome = Returned | Raised error

function main :: "world \<Rightarrow> outcome \<times> world" where
  "main w =
     (case iteration w of
        (Continue, w') \<Rightarrow> main w'
      | (Break, w') \<Rightarrow> (Returned, w')
      | (Raise e, w') \<Rightarrow> (Raised e, w'))"
  by pat_completeness auto

text \<open>
  The status the interpreter leaves the process with when the script ends: 0 when \<open>main\<close>
  returns, 1 when an exception reaches the top level.
\<close>

definition exit_status :: "outcome \<Rightarrow> nat" where
  "exit_status r = (case r of Returned \<Rightarrow> 0 | Raised e \<Rightarrow> 1)"

section \<open>Vocabulary of the specification\<close>

text \<open>The two banner lines and the six option lines of the menu, and the menu as text.\<close>

definition banner_lines :: "string list" where
  "banner_lines =
     [''Welcome to the SOLID Principles Interactive Demo!'',
      ''Please choose a principle to explore:'']"

definition option_lines :: "string list" where
  "option_lines =
     [''1. Single Responsibility Principle (SRP)'',
      ''2. Open/Closed Principle (OCP)'',
      ''3. Liskov Substitution Principle (LSP)'',
      ''4. Interface Segregation Principle (ISP)'',
      ''5. Dependency Inversion Principle (DIP)'',
      ''6. Exit'']"

definition unlines :: "string list \<Rightarrow> string" where
  "unlines ls = concat (map (\<lambda>l. l @ nl) ls)"

definition menu_text :: string where
  "menu_text = unlines (banner_lines @ option_lines)"

definition prompt :: string where
  "prompt = ''Enter your choice: ''"

text \<open>The five principle identifiers, and the identifier each menu choice stands for.\<close>

definition principle_ids :: "string list" where
  "principle_ids = [''1-srp'', ''2-ocp'', ''3-lsp'', ''4-isp'', ''5-dip'']"

definition principle_of :: "string \<Rightarrow> string option" where
  "principle_of choice =
     (if choice = ''1'' then Some ''1-srp''
      else if choice = ''2'' then Some ''2-ocp''
      else if choice = ''3'' then Some ''3-lsp''
      else if choice = ''4'' then Some ''4-isp''
      else if choice = ''5'' then Some ''5-dip''
      else None)"

text \<open>
  The short name in the words of the specification: the suffix of the identifier after
  the separator, lower-cased.
\<close>

definition spec_shortname :: "string \<Rightarrow> string" where
  "spec_shortname principle =
     str_lower (drop 1 (dropWhile (\<lambda>c. c \<noteq> CHR ''-'') principle))"

text \<open>The text a pass of the loop added to standard output.\<close>

definition emitted :: "world \<Rightarrow> world \<Rightarrow> string" where
  "emitted w w' = drop (length (out w)) (out w')"

section \<open>Basic facts\<close>

lemma print_sel [simp]:
  "files (print s w) = files w"
  "stdin (print s w) = stdin w"
  "opened (print s w) = opened w"
  "out (print s w) = out w @ s @ nl"
  by (simp_all add: print_def)

lemma display_menu_eq: "display_menu w = w\<lparr>out := out w @ menu_text\<rparr>"
  by (simp add: display_menu_def print_def menu_text_def unlines_def banner_lines_def
      option_lines_def)

lemma example_paths_five:
  "example_paths ''1-srp'' = Inr (''1-srp/bad_srp.py'', ''1-srp/good_srp.py'')"
  "example_paths ''2-ocp'' = Inr (''2-ocp/bad_ocp.py'', ''2-ocp/good_ocp.py'')"
  "example_paths ''3-lsp'' = Inr (''3-lsp/bad_lsp.py'', ''3-lsp/good_lsp.py'')"
  "example_paths ''4-isp'' = Inr (''4-isp/bad_isp.py'', ''4-isp/good_isp.py'')"
  "example_paths ''5-dip'' = Inr (''5-dip/bad_dip.py'', ''5-dip/good_dip.py'')"
  by (simp_all add: example_paths_def shortname_def str_split_def str_lower_def
      lower_char_def path_join_def)

lemma principle_of_ids: "principle_of c = Some p \<Longrightarrow> p \<in> set principle_ids"
  by (auto simp: principle_of_def principle_ids_def split: if_splits)

lemma principle_ids_paths:
  "p \<in> set principle_ids \<Longrightarrow> \<exists>b g. example_paths p = Inr (b, g)"
  by (auto simp: principle_ids_def example_paths_five)

lemma read_file_simps [simp]:
  "fs p = None \<Longrightarrow> read_file fs p = Inl (FileNotFoundError p)"
  "fs p = Some (Text content) \<Longrightarrow> read_file fs p = Inr content"
  "fs p = Some (Unreadable f) \<Longrightarrow> read_file fs p = Inl (ReadError f p)"
  by (simp_all add: read_file_def)

lemma read_file_no_index_error: "read_file fs p = Inl e \<Longrightarrow> e \<noteq> IndexError"
  by (auto simp: read_file_def split: option.splits node.splits)

lemma load_example_cases:
  assumes "example_paths p = Inr (b, g)"
  shows "load_example p w =
     (case read_file (files w) b of
        Inl e \<Rightarrow>
          (Inl e,
           w\<lparr>out := out w @ nl @ ''--- Bad Example ---'' @ nl, opened := opened w @ [b]\<rparr>)
      | Inr cb \<Rightarrow>
          (case read_file (files w) g of
             Inl e \<Rightarrow>
               (Inl e,
                w\<lparr>out := out w @ nl @ ''--- Bad Example ---'' @ nl @ cb @ nl @
                       nl @ ''--- Good Example ---'' @ nl,
                  opened := opened w @ [b, g]\<rparr>)
           | Inr cg \<Rightarrow>
               (Inr (),
                w\<lparr>out := out w @ nl @ ''--- Bad Example ---'' @ nl @ cb @ nl @
                       nl @ ''--- Good Example ---'' @ nl @ cg @ nl,
                  opened := opened w @ [b, g]\<rparr>)))"
  using assms
  by (simp add: load_example_def open_read_def print_def split: sum.splits)

lemma run_example_cases:
  assumes "example_paths p = Inr (b, g)"
  shows "run_example p w =
     (case read_file (files w) b of
        Inl e \<Rightarrow>
          (Raise e,
           w\<lparr>out := out w @ nl @ ''--- Bad Example ---'' @ nl, opened := opened w @ [b]\<rparr>)
      | Inr cb \<Rightarrow>
          (case read_file (files w) g of
             Inl e \<Rightarrow>
               (Raise e,
                w\<lparr>out := out w @ nl @ ''--- Bad Example ---'' @ nl @ cb @ nl @
                       nl @ ''--- Good Example ---'' @ nl,
                  opened := opened w @ [b, g]\<rparr>)
           | Inr cg \<Rightarrow>
               (Continue,
                w\<lparr>out := out w @ nl @ ''--- Bad Example ---'' @ nl @ cb @ nl @
                       nl @ ''--- Good Example ---'' @ nl @ cg @ nl,
                  opened := opened w @ [b, g]\<rparr>)))"
  by (simp add: run_example_def load_example_cases [OF assms] split: sum.splits)

lemma load_example_keeps:
  "stdin (snd (load_example p w)) = stdin w"
  "files (snd (load_example p w)) = files w"
  by (auto simp: load_example_def open_read_def Let_def
      split: sum.splits prod.splits)

lemma run_example_keeps:
  "stdin (snd (run_example p w)) = stdin w"
  "files (snd (run_example p w)) = files w"
  using load_example_keeps [of p w]
  by (cases "load_example p w"; auto simp: run_example_def split: sum.splits)+

lemma iteration_eof:
  "stdin w = [] \<Longrightarrow>
   iteration w = (Raise EOFError, w\<lparr>out := out w @ menu_text @ prompt\<rparr>)"
  by (simp add: iteration_def display_menu_eq input_def prompt_def)

lemma iteration_line:
  "stdin w = l # ls \<Longrightarrow>
   iteration w =
     (let w2 = w\<lparr>out := out w @ menu_text @ prompt, stdin := ls\<rparr>;
          choice = str_strip l
      in if choice = ''1'' then run_example ''1-srp'' w2
         else if choice = ''2'' then run_example ''2-ocp'' w2
         else if choice = ''3'' then run_example ''3-lsp'' w2
         else if choice = ''4'' then run_example ''4-isp'' w2
         else if choice = ''5'' then run_example ''5-dip'' w2
         else if choice = ''6'' then (Break, print ''Goodbye!'' w2)
         else (Continue, print ''Invalid choice, please try again.'' w2))"
  by (simp add: iteration_def display_menu_eq input_def Let_def prompt_def)

lemma iteration_principle:
  "stdin w = l # ls \<Longrightarrow> principle_of (str_strip l) = Some p \<Longrightarrow>
   iteration w = run_example p (w\<lparr>out := out w @ menu_text @ prompt, stdin := ls\<rparr>)"
  by (auto simp: iteration_line principle_of_def Let_def split: if_splits)

lemma iteration_exit:
  "stdin w = l # ls \<Longrightarrow> str_strip l = ''6'' \<Longrightarrow>
   iteration w =
     (Break, w\<lparr>out := out w @ menu_text @ prompt @ ''Goodbye!'' @ nl, stdin := ls\<rparr>)"
  by (simp add: iteration_line print_def)

lemma iteration_invalid:
  "stdin w = l # ls \<Longrightarrow> str_strip l \<noteq> ''6'' \<Longrightarrow> principle_of (str_strip l) = None \<Longrightarrow>
   iteration w =
     (Continue,
      w\<lparr>out := out w @ menu_text @ prompt @ ''Invalid choice, please try again.'' @ nl,
        stdin := ls\<rparr>)"
  by (simp add: iteration_line print_def principle_of_def split: if_splits)

lemma iteration_consumes:
  assumes "iteration w = (Continue, w')"
  shows "length (stdin w') < length (stdin w)"
proof (cases "stdin w")
  case Nil
  with assms show ?thesis by (simp add: iteration_eof)
next
  case (Cons l ls)
  have "stdin (snd (iteration w)) = ls"
    by (simp add: iteration_line [OF Cons] Let_def run_example_keeps)
  with assms Cons show ?thesis by simp
qed

termination main
  by (relation "measure (\<lambda>w. length (stdin w))") (auto dest: iteration_consumes [OF sym])

declare main.simps [simp del]

lemma main_continue: "iteration w = (Continue, w') \<Longrightarrow> main w = main w'"
  by (subst main.simps) simp

lemma main_break: "iteration w = (Break, w') \<Longrightarrow> main w = (Returned, w')"
  by (subst main.simps) simp

lemma main_raise: "iteration w = (Raise e, w') \<Longrightarrow> main w = (Raised e, w')"
  by (subst main.simps) simp

lemma spec_shortname_five:
  "spec_shortname ''1-srp'' = ''srp''"
  "spec_shortname ''2-ocp'' = ''ocp''"
  "spec_shortname ''3-lsp'' = ''lsp''"
  "spec_shortname ''4-isp'' = ''isp''"
  "spec_shortname ''5-dip'' = ''dip''"
  by (simp_all add: spec_shortname_def str_lower_def lower_char_def)

lemma load_example_opened:
  assumes "example_paths p = Inr (b, g)"
  shows "opened (snd (load_example p w)) =
     opened w @ (case read_file (files w) b of Inl e \<Rightarrow> [b] | Inr cb \<Rightarrow> [b, g])"
  by (simp add: load_example_cases [OF assms] split: sum.splits)

lemma shortname_five:
  "shortname ''1-srp'' = Inr ''srp''"
  "shortname ''2-ocp'' = Inr ''ocp''"
  "shortname ''3-lsp'' = Inr ''lsp''"
  "shortname ''4-isp'' = Inr ''isp''"
  "shortname ''5-dip'' = Inr ''dip''"
  by (simp_all add: shortname_def str_split_def str_lower_def lower_char_def)

lemma load_example_no_index_error:
  assumes "example_paths p = Inr (b, g)"
  shows "fst (load_example p w) \<noteq> Inl IndexError"
  by (auto simp: load_example_cases [OF assms] split: sum.splits
      dest: read_file_no_index_error)

lemma run_example_no_index_error:
  assumes "p \<in> set principle_ids"
  shows "fst (run_example p w) \<noteq> Raise IndexError"
proof -
  from assms obtain b g where "example_paths p = Inr (b, g)"
    using principle_ids_paths by blast
  then show ?thesis
    by (auto simp: run_example_cases split: sum.splits dest: read_file_no_index_error)
qed

lemma iteration_no_index_error: "fst (iteration w) \<noteq> Raise IndexError"
proof (cases "stdin w")
  case Nil
  then show ?thesis by (simp add: iteration_eof)
next
  case (Cons l ls)
  show ?thesis
    by (simp add: iteration_line [OF Cons] Let_def run_example_no_index_error
        principle_ids_def)
qed

lemma main_no_index_error: "fst (main w) \<noteq> Raised IndexError"
proof (induction w rule: main.induct)
  case (1 w)
  obtain c w' where it: "iteration w = (c, w')"
    by (cases "iteration w")
  show ?case
  proof (cases c)
    case Continue
    with it "1.IH" [of Continue w'] show ?thesis
      by (simp add: main_continue)
  next
    case Break
    with it show ?thesis by (simp add: main_break)
  next
    case (Raise e)
    with it iteration_no_index_error [of w] show ?thesis
      by (auto simp: main_raise)
  qed
qed

lemma iteration_writes_menu:
  "\<exists>rest. out (snd (iteration w)) = out w @ menu_text @ prompt @ rest"
proof (cases "stdin w")
  case Nil
  then show ?thesis by (simp add: iteration_eof)
next
  case (Cons l ls)
  show ?thesis
  proof (cases "principle_of (str_strip l)")
    case None
    then show ?thesis
      using Cons
      by (cases "str_strip l = ''6''") (simp_all add: iteration_exit iteration_invalid)
  next
    case (Some p)
    then obtain b g where "example_paths p = Inr (b, g)"
      using principle_of_ids principle_ids_paths by blast
    then show ?thesis
      using Cons Some
      by (simp add: iteration_principle run_example_cases split: sum.splits)
  qed
qed

lemma iteration_stdin: "stdin (snd (iteration w)) = tl (stdin w)"
proof (cases "stdin w")
  case Nil
  then show ?thesis by (simp add: iteration_eof)
next
  case (Cons l ls)
  then show ?thesis
    by (simp add: iteration_line [OF Cons] Let_def run_example_keeps)
qed

lemma iteration_break:
  assumes "iteration w = (Break, w')"
  shows "\<exists>l ls. stdin w = l # ls \<and> str_strip l = ''6''"
proof (cases "stdin w")
  case Nil
  with assms show ?thesis by (simp add: iteration_eof)
next
  case (Cons l ls)
  show ?thesis
  proof (cases "principle_of (str_strip l)")
    case None
    with assms Cons show ?thesis
      by (cases "str_strip l = ''6''") (simp_all add: iteration_invalid)
  next
    case (Some p)
    then obtain b g where "example_paths p = Inr (b, g)"
      using principle_of_ids principle_ids_paths by blast
    with assms Cons Some show ?thesis
      by (simp add: iteration_principle run_example_cases split: sum.splits)
  qed
qed

lemma main_returned:
  "fst (main w) = Returned \<Longrightarrow> \<exists>l \<in> set (stdin w). str_strip l = ''6''"
proof (induction w rule: main.induct)
  case (1 w)
  obtain c w' where it: "iteration w = (c, w')"
    by (cases "iteration w")
  show ?case
  proof (cases c)
    case Continue
    with it "1.prems" have "fst (main w') = Returned"
      by (simp add: main_continue)
    with it Continue "1.IH" [of Continue w']
    obtain l where l: "l \<in> set (stdin w')" "str_strip l = ''6''"
      by auto
    from it have "stdin w' = tl (stdin w)"
      using iteration_stdin [of w] by simp
    with l have "l \<in> set (stdin w)"
      by (cases "stdin w") auto
    with l show ?thesis by blast
  next
    case Break
    with it iteration_break [of w w'] show ?thesis by auto
  next
    case (Raise e)
    with it "1.prems" show ?thesis by (simp add: main_raise)
  qed
qed

lemma iteration_ctl:
  "fst (iteration w) =
     (case stdin w of
        [] \<Rightarrow> Raise EOFError
      | l # ls \<Rightarrow>
          if str_strip l = ''6'' then Break
          else (case principle_of (str_strip l) of
                  None \<Rightarrow> Continue
                | Some p \<Rightarrow>
                    (case example_paths p of
                       Inl e \<Rightarrow> Raise e
                     | Inr (b, g) \<Rightarrow>
                         (case read_file (files w) b of
                            Inl e \<Rightarrow> Raise e
                          | Inr cb \<Rightarrow>
                              (case read_file (files w) g of
                                 Inl e \<Rightarrow> Raise e
                               | Inr cg \<Rightarrow> Continue)))))"
proof (cases "stdin w")
  case Nil
  then show ?thesis by (simp add: iteration_eof)
next
  case (Cons l ls)
  show ?thesis
  proof (cases "principle_of (str_strip l)")
    case None
    then show ?thesis
      using Cons
      by (cases "str_strip l = ''6''") (simp_all add: iteration_exit iteration_invalid)
  next
    case (Some p)
    then have not6: "str_strip l \<noteq> ''6''"
      by (auto simp: principle_of_def)
    from Some obtain b g where "example_paths p = Inr (b, g)"
      using principle_of_ids principle_ids_paths by blast
    then show ?thesis
      using Cons Some not6
      by (simp add: iteration_principle run_example_cases split: sum.splits)
  qed
qed

section \<open>Properties of the specification\<close>

text \<open>
  C1. For a recognised input \<open>1\<close> to \<open>5\<close> whose two example files exist, \<open>load_example\<close>
  prints the whole text of both files, the bad example before the good one, each after
  its header line \<open>--- Bad Example ---\<close> or \<open>--- Good Example ---\<close>; the pass of the
  loop that reads the input writes the menu, the prompt and then exactly that text, and
  the loop goes on.
\<close>

theorem load_example_prints_both:
  assumes "stdin w = l # ls"
    and "principle_of (str_strip l) = Some p"
    and "example_paths p = Inr (b, g)"
    and "files w b = Some (Text cb)"
    and "files w g = Some (Text cg)"
  shows "load_example p w =
     (Inr (),
      w\<lparr>out := out w @ nl @ ''--- Bad Example ---'' @ nl @ cb @ nl @
             nl @ ''--- Good Example ---'' @ nl @ cg @ nl,
        opened := opened w @ [b, g]\<rparr>) \<and>
   iteration w =
     (Continue,
      w\<lparr>out := out w @ menu_text @ prompt @
             nl @ ''--- Bad Example ---'' @ nl @ cb @ nl @
             nl @ ''--- Good Example ---'' @ nl @ cg @ nl,
        stdin := ls,
        opened := opened w @ [b, g]\<rparr>)"
  using assms
  by (simp add: load_example_cases iteration_principle run_example_cases)

text \<open>The input \<open>1\<close> with both files of \<open>1-srp\<close> present.\<close>

theorem load_example_prints_both_witness:
  "principle_of (str_strip ''1'') = Some ''1-srp'' \<and>
   example_paths ''1-srp'' = Inr (''1-srp/bad_srp.py'', ''1-srp/good_srp.py'') \<and>
   load_example ''1-srp''
     \<lparr>files = [''1-srp/bad_srp.py'' \<mapsto> Text ''B'', ''1-srp/good_srp.py'' \<mapsto> Text ''G''],
      stdin = [''1'', ''6''], out = [], opened = []\<rparr> =
     (Inr (),
      \<lparr>files = [''1-srp/bad_srp.py'' \<mapsto> Text ''B'', ''1-srp/good_srp.py'' \<mapsto> Text ''G''],
       stdin = [''1'', ''6''],
       out = nl @ ''--- Bad Example ---'' @ nl @ ''B'' @ nl @
             nl @ ''--- Good Example ---'' @ nl @ ''G'' @ nl,
       opened = [''1-srp/bad_srp.py'', ''1-srp/good_srp.py'']\<rparr>) \<and>
   iteration
     \<lparr>files = [''1-srp/bad_srp.py'' \<mapsto> Text ''B'', ''1-srp/good_srp.py'' \<mapsto> Text ''G''],
      stdin = [''1'', ''6''], out = [], opened = []\<rparr> =
     (Continue,
      \<lparr>files = [''1-srp/bad_srp.py'' \<mapsto> Text ''B'', ''1-srp/good_srp.py'' \<mapsto> Text ''G''],
       stdin = [''6''],
       out = menu_text @ prompt @ nl @ ''--- Bad Example ---'' @ nl @ ''B'' @ nl @
             nl @ ''--- Good Example ---'' @ nl @ ''G'' @ nl,
       opened = [''1-srp/bad_srp.py'', ''1-srp/good_srp.py'']\<rparr>)"
proof -
  have c: "principle_of (str_strip ''1'') = Some ''1-srp''"
    by (simp add: principle_of_def str_strip_def isspace_def)
  have e: "example_paths ''1-srp'' = Inr (''1-srp/bad_srp.py'', ''1-srp/good_srp.py'')"
    by (rule example_paths_five)
  show ?thesis
    using c e load_example_prints_both [OF _ c e, of
        "\<lparr>files = [''1-srp/bad_srp.py'' \<mapsto> Text ''B'', ''1-srp/good_srp.py'' \<mapsto> Text ''G''],
          stdin = [''1'', ''6''], out = [], opened = []\<rparr>" "[''6'']" "''B''" "''G''"]
    by simp
qed

text \<open>
  C2, as amended. When an example file of the selected principle is missing or cannot
  be read, \<open>load_example\<close> fails with the exception that \<open>open\<close> or \<open>read\<close> raises for the
  first such file (\<open>FileNotFoundError\<close> for a missing file, and for a file that exists
  the exception that says why it cannot be read), and nothing catches it: \<open>main\<close> ends
  with that error and the exit status is 1. The rest of standard input is left unread
  and the menu is not written again; the output ends with the bad header when it is the
  bad file that fails, and with the bad file's text and the good header when it is the
  good file.
\<close>

theorem unreadable_file_ends_loop:
  assumes "stdin w = l # ls"
    and "principle_of (str_strip l) = Some p"
    and "example_paths p = Inr (b, g)"
    and "read_file (files w) b = Inl e \<or>
         (\<exists>cb. read_file (files w) b = Inr cb) \<and> read_file (files w) g = Inl e"
  shows "main w =
     (Raised e,
      w\<lparr>out := out w @ menu_text @ prompt @ nl @ ''--- Bad Example ---'' @ nl @
             (case read_file (files w) b of
                Inl e' \<Rightarrow> []
              | Inr cb \<Rightarrow> cb @ nl @ nl @ ''--- Good Example ---'' @ nl),
        stdin := ls,
        opened := opened w @
          (case read_file (files w) b of Inl e' \<Rightarrow> [b] | Inr cb \<Rightarrow> [b, g])\<rparr>) \<and>
   exit_status (fst (main w)) = 1 \<and>
   (files w b = None \<longrightarrow> e = FileNotFoundError b) \<and>
   (\<forall>f. files w b = Some (Unreadable f) \<longrightarrow> e = ReadError f b) \<and>
   (\<forall>cb. files w b = Some (Text cb) \<longrightarrow>
      (files w g = None \<longrightarrow> e = FileNotFoundError g) \<and>
      (\<forall>f. files w g = Some (Unreadable f) \<longrightarrow> e = ReadError f g))"
proof -
  have it: "iteration w =
     (Raise e,
      w\<lparr>out := out w @ menu_text @ prompt @ nl @ ''--- Bad Example ---'' @ nl @
             (case read_file (files w) b of
                Inl e' \<Rightarrow> []
              | Inr cb \<Rightarrow> cb @ nl @ nl @ ''--- Good Example ---'' @ nl),
        stdin := ls,
        opened := opened w @
          (case read_file (files w) b of Inl e' \<Rightarrow> [b] | Inr cb \<Rightarrow> [b, g])\<rparr>)"
    using assms
    by (auto simp: iteration_principle run_example_cases split: sum.splits)
  have which: "(files w b = None \<longrightarrow> e = FileNotFoundError b) \<and>
   (\<forall>f. files w b = Some (Unreadable f) \<longrightarrow> e = ReadError f b) \<and>
   (\<forall>cb. files w b = Some (Text cb) \<longrightarrow>
      (files w g = None \<longrightarrow> e = FileNotFoundError g) \<and>
      (\<forall>f. files w g = Some (Unreadable f) \<longrightarrow> e = ReadError f g))"
    using assms(4) by auto
  show ?thesis
    using main_raise [OF it] which by (simp add: exit_status_def)
qed

text \<open>
  The input \<open>2\<close> when the bad file of \<open>2-ocp\<close> is present and the good file exists but
  does not decode as text: the run ends with \<open>UnicodeDecodeError\<close>.
\<close>

theorem unreadable_file_ends_loop_witness:
  "principle_of (str_strip ''2'') = Some ''2-ocp'' \<and>
   example_paths ''2-ocp'' = Inr (''2-ocp/bad_ocp.py'', ''2-ocp/good_ocp.py'') \<and>
   main \<lparr>files = [''2-ocp/bad_ocp.py'' \<mapsto> Text ''B'',
                   ''2-ocp/good_ocp.py'' \<mapsto> Unreadable UnicodeDecodeError],
         stdin = [''2'', ''6''], out = [], opened = []\<rparr> =
     (Raised (ReadError UnicodeDecodeError ''2-ocp/good_ocp.py''),
      \<lparr>files = [''2-ocp/bad_ocp.py'' \<mapsto> Text ''B'',
                ''2-ocp/good_ocp.py'' \<mapsto> Unreadable UnicodeDecodeError],
       stdin = [''6''],
       out = menu_text @ prompt @ nl @ ''--- Bad Example ---'' @ nl @ ''B'' @ nl @
             nl @ ''--- Good Example ---'' @ nl,
       opened = [''2-ocp/bad_ocp.py'', ''2-ocp/good_ocp.py'']\<rparr>) \<and>
   exit_status
     (fst (main \<lparr>files = [''2-ocp/bad_ocp.py'' \<mapsto> Text ''B'',
                          ''2-ocp/good_ocp.py'' \<mapsto> Unreadable UnicodeDecodeError],
                stdin = [''2'', ''6''], out = [], opened = []\<rparr>)) = 1"
proof -
  have c: "principle_of (str_strip ''2'') = Some ''2-ocp''"
    by (simp add: principle_of_def str_strip_def isspace_def)
  have e: "example_paths ''2-ocp'' = Inr (''2-ocp/bad_ocp.py'', ''2-ocp/good_ocp.py'')"
    by (rule example_paths_five)
  show ?thesis
    using c e unreadable_file_ends_loop [OF _ c e, of
        "\<lparr>files = [''2-ocp/bad_ocp.py'' \<mapsto> Text ''B'',
                   ''2-ocp/good_ocp.py'' \<mapsto> Unreadable UnicodeDecodeError],
          stdin = [''2'', ''6''], out = [], opened = []\<rparr>" "[''6'']"
        "ReadError UnicodeDecodeError ''2-ocp/good_ocp.py''"]
    by (simp add: exit_status_def)
qed

text \<open>
  C2 as stated fails: with no files at all and the input lines \<open>1\<close>, \<open>6\<close> the first
  pass does not continue; \<open>main\<close> ends with the error, the line \<open>6\<close> is still unread and
  the exit status is 1.
\<close>

theorem missing_file_continues_counterexample:
  "main \<lparr>files = Map.empty, stdin = [''1'', ''6''], out = [], opened = []\<rparr> =
     (Raised (FileNotFoundError ''1-srp/bad_srp.py''),
      \<lparr>files = Map.empty, stdin = [''6''],
       out = menu_text @ prompt @ nl @ ''--- Bad Example ---'' @ nl,
       opened = [''1-srp/bad_srp.py'']\<rparr>) \<and>
   fst (iteration \<lparr>files = Map.empty, stdin = [''1'', ''6''], out = [], opened = []\<rparr>)
     \<noteq> Continue \<and>
   exit_status
     (fst (main \<lparr>files = Map.empty, stdin = [''1'', ''6''], out = [], opened = []\<rparr>)) = 1"
proof -
  have c: "principle_of (str_strip ''1'') = Some ''1-srp''"
    by (simp add: principle_of_def str_strip_def isspace_def)
  have it: "iteration \<lparr>files = Map.empty, stdin = [''1'', ''6''], out = [], opened = []\<rparr> =
     (Raise (FileNotFoundError ''1-srp/bad_srp.py''),
      \<lparr>files = Map.empty, stdin = [''6''],
       out = menu_text @ prompt @ nl @ ''--- Bad Example ---'' @ nl,
       opened = [''1-srp/bad_srp.py'']\<rparr>)"
    by (simp add: iteration_principle [OF _ c] run_example_cases [OF example_paths_five(1)])
  show ?thesis
    by (simp add: main_raise [OF it] it exit_status_def)
qed

text \<open>
  C3. On the input \<open>6\<close> (a line that is \<open>6\<close> once stripped) \<open>main\<close> writes the menu, the
  prompt and \<open>Goodbye!\<close>, and returns: nothing more is written, the remaining input is
  not read, no file is opened, and the exit status is 0.
\<close>

theorem exit_terminates:
  assumes "stdin w = l # ls"
    and "str_strip l = ''6''"
  shows "main w =
     (Returned, w\<lparr>out := out w @ menu_text @ prompt @ ''Goodbye!'' @ nl, stdin := ls\<rparr>) \<and>
   exit_status (fst (main w)) = 0"
  using assms by (simp add: main_break [OF iteration_exit] exit_status_def)

text \<open>The input lines \<open>6\<close>, \<open>1\<close>: the line \<open>1\<close> stays unread.\<close>

theorem exit_terminates_witness:
  "str_strip ''6'' = ''6'' \<and>
   main \<lparr>files = Map.empty, stdin = [''6'', ''1''], out = [], opened = []\<rparr> =
     (Returned,
      \<lparr>files = Map.empty, stdin = [''1''],
       out = menu_text @ prompt @ ''Goodbye!'' @ nl, opened = []\<rparr>) \<and>
   exit_status
     (fst (main \<lparr>files = Map.empty, stdin = [''6'', ''1''], out = [], opened = []\<rparr>)) = 0"
proof -
  have s: "str_strip ''6'' = ''6''"
    by (simp add: str_strip_def isspace_def)
  show ?thesis
    using s exit_terminates [OF _ s, of
        "\<lparr>files = Map.empty, stdin = [''6'', ''1''], out = [], opened = []\<rparr>" "[''1'']"]
    by (simp add: exit_status_def)
qed

text \<open>
  C4. For each of the five principle identifiers, \<open>load_example\<close> computes the paths
  \<open>id/bad_short.py\<close> and \<open>id/good_short.py\<close>, where \<open>short\<close> is the suffix of the
  identifier after the separator, lower-cased, and the paths it opens are these two and
  no other (only the first when the first cannot be read).
\<close>

theorem example_paths_convention:
  assumes "p \<in> set principle_ids"
  shows "example_paths p =
       Inr (p @ ''/bad_'' @ spec_shortname p @ ''.py'',
            p @ ''/good_'' @ spec_shortname p @ ''.py'') \<and>
     opened (snd (load_example p w)) =
       opened w @
       (case read_file (files w) (p @ ''/bad_'' @ spec_shortname p @ ''.py'') of
          Inl e \<Rightarrow> [p @ ''/bad_'' @ spec_shortname p @ ''.py'']
        | Inr cb \<Rightarrow>
            [p @ ''/bad_'' @ spec_shortname p @ ''.py'',
             p @ ''/good_'' @ spec_shortname p @ ''.py''])"
proof -
  have paths: "example_paths p =
       Inr (p @ ''/bad_'' @ spec_shortname p @ ''.py'',
            p @ ''/good_'' @ spec_shortname p @ ''.py'')"
    using assms
    by (auto simp: principle_ids_def example_paths_five spec_shortname_five)
  show ?thesis
    using paths load_example_opened [OF paths, of w] by simp
qed

text \<open>The identifier \<open>3-lsp\<close> gives \<open>3-lsp/bad_lsp.py\<close> and \<open>3-lsp/good_lsp.py\<close>.\<close>

theorem example_paths_convention_witness:
  "''3-lsp'' \<in> set principle_ids \<and>
   example_paths ''3-lsp'' = Inr (''3-lsp/bad_lsp.py'', ''3-lsp/good_lsp.py'') \<and>
   opened (snd (load_example ''3-lsp''
     \<lparr>files = [''3-lsp/bad_lsp.py'' \<mapsto> Text ''B'', ''3-lsp/good_lsp.py'' \<mapsto> Text ''G''],
      stdin = [], out = [], opened = []\<rparr>)) =
     [''3-lsp/bad_lsp.py'', ''3-lsp/good_lsp.py'']"
proof -
  have m: "''3-lsp'' \<in> set principle_ids"
    by (simp add: principle_ids_def)
  show ?thesis
    using m example_paths_convention [OF m, of
        "\<lparr>files = [''3-lsp/bad_lsp.py'' \<mapsto> Text ''B'', ''3-lsp/good_lsp.py'' \<mapsto> Text ''G''],
          stdin = [], out = [], opened = []\<rparr>"]
    by (simp add: spec_shortname_five)
qed

text \<open>
  C5, as amended. For any input line whose text, once stripped of surrounding white
  space, is outside \<open>1\<close> to \<open>6\<close>, the pass of the loop writes the menu, the prompt and
  the invalid-choice message and opens no file; the loop goes on, and its next pass
  writes the menu and the prompt again.
\<close>

theorem invalid_choice_reprompts:
  assumes "stdin w = l # ls"
    and "str_strip l \<notin> {''1'', ''2'', ''3'', ''4'', ''5'', ''6''}"
  shows "iteration w =
     (Continue,
      w\<lparr>out := out w @ menu_text @ prompt @ ''Invalid choice, please try again.'' @ nl,
        stdin := ls\<rparr>) \<and>
   main w =
     main (w\<lparr>out := out w @ menu_text @ prompt @ ''Invalid choice, please try again.'' @ nl,
             stdin := ls\<rparr>) \<and>
   opened (snd (iteration w)) = opened w \<and>
   (\<exists>rest. out (snd (iteration (snd (iteration w)))) =
      out w @ menu_text @ prompt @ ''Invalid choice, please try again.'' @ nl @
      menu_text @ prompt @ rest)"
proof -
  have none: "principle_of (str_strip l) = None" and not6: "str_strip l \<noteq> ''6''"
    using assms(2) by (simp_all add: principle_of_def)
  have it: "iteration w =
     (Continue,
      w\<lparr>out := out w @ menu_text @ prompt @ ''Invalid choice, please try again.'' @ nl,
        stdin := ls\<rparr>)"
    using assms(1) not6 none by (rule iteration_invalid)
  obtain rest where "out (snd (iteration (snd (iteration w)))) =
      out (snd (iteration w)) @ menu_text @ prompt @ rest"
    using iteration_writes_menu [of "snd (iteration w)"] by blast
  then have "\<exists>rest. out (snd (iteration (snd (iteration w)))) =
      out w @ menu_text @ prompt @ ''Invalid choice, please try again.'' @ nl @
      menu_text @ prompt @ rest"
    by (simp add: it)
  then show ?thesis
    using it main_continue [OF it] by simp
qed

text \<open>The input lines \<open>9\<close>, \<open>6\<close> with no files.\<close>

theorem invalid_choice_reprompts_witness:
  "str_strip ''9'' \<notin> {''1'', ''2'', ''3'', ''4'', ''5'', ''6''} \<and>
   iteration \<lparr>files = Map.empty, stdin = [''9'', ''6''], out = [], opened = []\<rparr> =
     (Continue,
      \<lparr>files = Map.empty, stdin = [''6''],
       out = menu_text @ prompt @ ''Invalid choice, please try again.'' @ nl,
       opened = []\<rparr>) \<and>
   main \<lparr>files = Map.empty, stdin = [''9'', ''6''], out = [], opened = []\<rparr> =
     (Returned,
      \<lparr>files = Map.empty, stdin = [],
       out = menu_text @ prompt @ ''Invalid choice, please try again.'' @ nl @
             menu_text @ prompt @ ''Goodbye!'' @ nl,
       opened = []\<rparr>)"
proof -
  have s: "str_strip ''9'' \<notin> {''1'', ''2'', ''3'', ''4'', ''5'', ''6''}"
    by (simp add: str_strip_def isspace_def)
  have s6: "str_strip ''6'' = ''6''"
    by (simp add: str_strip_def isspace_def)
  have "main \<lparr>files = Map.empty, stdin = [''6''],
       out = menu_text @ prompt @ ''Invalid choice, please try again.'' @ nl,
       opened = []\<rparr> =
     (Returned,
      \<lparr>files = Map.empty, stdin = [],
       out = menu_text @ prompt @ ''Invalid choice, please try again.'' @ nl @
             menu_text @ prompt @ ''Goodbye!'' @ nl,
       opened = []\<rparr>)"
    by (simp add: main_break [OF iteration_exit [OF _ s6]])
  then show ?thesis
    using s invalid_choice_reprompts [OF _ s, of
        "\<lparr>files = Map.empty, stdin = [''9'', ''6''], out = [], opened = []\<rparr>" "[''6'']"]
    by simp
qed

text \<open>
  C5 as stated fails: the input line \<open>1\<close> with a space before it is none of the six
  strings, and yet the pass prints no invalid-choice message and opens both files of
  \<open>1-srp\<close>.
\<close>

theorem input_line_outside_counterexample:
  "'' 1'' \<notin> {''1'', ''2'', ''3'', ''4'', ''5'', ''6''} \<and>
   iteration
     \<lparr>files = [''1-srp/bad_srp.py'' \<mapsto> Text ''B'', ''1-srp/good_srp.py'' \<mapsto> Text ''G''],
      stdin = ['' 1''], out = [], opened = []\<rparr> =
     (Continue,
      \<lparr>files = [''1-srp/bad_srp.py'' \<mapsto> Text ''B'', ''1-srp/good_srp.py'' \<mapsto> Text ''G''],
       stdin = [],
       out = menu_text @ prompt @ nl @ ''--- Bad Example ---'' @ nl @ ''B'' @ nl @
             nl @ ''--- Good Example ---'' @ nl @ ''G'' @ nl,
       opened = [''1-srp/bad_srp.py'', ''1-srp/good_srp.py'']\<rparr>)"
proof -
  have c: "principle_of (str_strip '' 1'') = Some ''1-srp''"
    by (simp add: principle_of_def str_strip_def isspace_def)
  show ?thesis
    by (simp add: iteration_principle [OF _ c] run_example_cases [OF example_paths_five(1)])
qed

text \<open>
  C6, as amended. A pass of the loop starts in \<open>Running\<close> and has three outcomes:
  \<open>Break\<close> (to \<open>Terminated\<close>) exactly when the line read is \<open>6\<close> once stripped;
  \<open>Continue\<close> (back to \<open>Running\<close>) when the stripped line is none of \<open>1\<close> to \<open>6\<close>, or
  is one of \<open>1\<close> to \<open>5\<close> and both example files of its principle can be opened and read
  as text; and otherwise an uncaught error that ends the run: the exception that \<open>open\<close>
  or \<open>read\<close> raises for the first example file that is missing or cannot be read
  (\<open>FileNotFoundError\<close> for a missing file, and for a file that exists the exception
  that says why it cannot be read), or \<open>EOFError\<close> when the input is exhausted. A run
  of \<open>main\<close> returns only if some input line is \<open>6\<close> once stripped.
\<close>

theorem run_transitions:
  "fst (iteration w) =
     (case stdin w of
        [] \<Rightarrow> Raise EOFError
      | l # ls \<Rightarrow>
          if str_strip l = ''6'' then Break
          else (case principle_of (str_strip l) of
                  None \<Rightarrow> Continue
                | Some p \<Rightarrow>
                    (case example_paths p of
                       Inl e \<Rightarrow> Raise e
                     | Inr (b, g) \<Rightarrow>
                         (case read_file (files w) b of
                            Inl e \<Rightarrow> Raise e
                          | Inr cb \<Rightarrow>
                              (case read_file (files w) g of
                                 Inl e \<Rightarrow> Raise e
                               | Inr cg \<Rightarrow> Continue))))) \<and>
   (fst (main w) = Returned \<longrightarrow> (\<exists>l \<in> set (stdin w). str_strip l = ''6''))"
  using iteration_ctl [of w] main_returned [of w] by blast

text \<open>The input lines \<open>9\<close> and \<open>6\<close> between spaces, with no files.\<close>

theorem run_transitions_witness:
  "fst (iteration \<lparr>files = Map.empty, stdin = [''9'', '' 6 ''], out = [], opened = []\<rparr>) =
     Continue \<and>
   fst (main \<lparr>files = Map.empty, stdin = [''9'', '' 6 ''], out = [], opened = []\<rparr>) =
     Returned \<and>
   (\<exists>l \<in> set (stdin \<lparr>files = Map.empty, stdin = [''9'', '' 6 ''], out = [], opened = []\<rparr>).
      str_strip l = ''6'')"
proof -
  have s9: "str_strip ''9'' \<noteq> ''6''" "principle_of (str_strip ''9'') = None"
    by (simp_all add: str_strip_def isspace_def principle_of_def)
  have s6: "str_strip '' 6 '' = ''6''"
    by (simp add: str_strip_def isspace_def)
  have m: "main \<lparr>files = Map.empty, stdin = [''9'', '' 6 ''], out = [], opened = []\<rparr> =
     (Returned,
      \<lparr>files = Map.empty, stdin = [],
       out = menu_text @ prompt @ ''Invalid choice, please try again.'' @ nl @
             menu_text @ prompt @ ''Goodbye!'' @ nl,
       opened = []\<rparr>)"
    by (simp add: main_continue [OF iteration_invalid [OF _ s9]]
        main_break [OF iteration_exit [OF _ s6]])
  show ?thesis
    using m run_transitions
      [of "\<lparr>files = Map.empty, stdin = [''9'', '' 6 ''], out = [], opened = []\<rparr>"]
    by (simp add: s9 s6)
qed

text \<open>
  C6 as stated fails: with no files, the selection \<open>1\<close> is not the exit selection and
  yet the pass neither stays in the loop nor leaves it by \<open>break\<close>; it ends with
  \<open>FileNotFoundError\<close>.
\<close>

theorem selection_self_loops_counterexample:
  "str_strip ''1'' \<noteq> ''6'' \<and>
   fst (iteration \<lparr>files = Map.empty, stdin = [''1''], out = [], opened = []\<rparr>) =
     Raise (FileNotFoundError ''1-srp/bad_srp.py'') \<and>
   fst (iteration \<lparr>files = Map.empty, stdin = [''1''], out = [], opened = []\<rparr>) \<noteq> Continue \<and>
   fst (iteration \<lparr>files = Map.empty, stdin = [''1''], out = [], opened = []\<rparr>) \<noteq> Break"
proof -
  have c: "principle_of (str_strip ''1'') = Some ''1-srp''"
    by (simp add: principle_of_def str_strip_def isspace_def)
  show ?thesis
    by (simp add: iteration_principle [OF _ c] run_example_cases [OF example_paths_five(1)]
        str_strip_def isspace_def)
qed

text \<open>
  C7. A pass of the loop keeps the files as they are, and what it writes and how it ends
  depend only on the files and on the selection: two passes that read the same selection
  \<open>1\<close> to \<open>5\<close> over the same files, wherever they stand in the session, add the same
  text to standard output, character for character.
\<close>

theorem repeated_selection_same_output:
  assumes "stdin w = l # ls"
    and "stdin v = l' # ls'"
    and "str_strip l = c"
    and "str_strip l' = c"
    and "c \<in> {''1'', ''2'', ''3'', ''4'', ''5''}"
    and "files v = files w"
  shows "emitted v (snd (iteration v)) = emitted w (snd (iteration w)) \<and>
   fst (iteration v) = fst (iteration w) \<and>
   out (snd (iteration w)) = out w @ emitted w (snd (iteration w)) \<and>
   files (snd (iteration w)) = files w"
proof -
  from assms(3,5) obtain p where p: "principle_of (str_strip l) = Some p"
    by (auto simp: principle_of_def)
  then have p': "principle_of (str_strip l') = Some p"
    using assms(3,4) by simp
  from p obtain b g where paths: "example_paths p = Inr (b, g)"
    using principle_of_ids principle_ids_paths by blast
  show ?thesis
    using assms(6)
    by (simp add: iteration_principle [OF assms(1) p] iteration_principle [OF assms(2) p']
        run_example_cases [OF paths] emitted_def split: sum.splits)
qed

text \<open>The input lines \<open>1\<close>, \<open>1\<close>, \<open>6\<close>: the first pass and the pass that follows it.\<close>

theorem repeated_selection_same_output_witness:
  "iteration
     \<lparr>files = [''1-srp/bad_srp.py'' \<mapsto> Text ''B'', ''1-srp/good_srp.py'' \<mapsto> Text ''G''],
      stdin = [''1'', ''1'', ''6''], out = [], opened = []\<rparr> =
     (Continue,
      \<lparr>files = [''1-srp/bad_srp.py'' \<mapsto> Text ''B'', ''1-srp/good_srp.py'' \<mapsto> Text ''G''],
       stdin = [''1'', ''6''],
       out = menu_text @ prompt @ nl @ ''--- Bad Example ---'' @ nl @ ''B'' @ nl @
             nl @ ''--- Good Example ---'' @ nl @ ''G'' @ nl,
       opened = [''1-srp/bad_srp.py'', ''1-srp/good_srp.py'']\<rparr>) \<and>
   emitted
     \<lparr>files = [''1-srp/bad_srp.py'' \<mapsto> Text ''B'', ''1-srp/good_srp.py'' \<mapsto> Text ''G''],
      stdin = [''1'', ''6''],
      out = menu_text @ prompt @ nl @ ''--- Bad Example ---'' @ nl @ ''B'' @ nl @
            nl @ ''--- Good Example ---'' @ nl @ ''G'' @ nl,
      opened = [''1-srp/bad_srp.py'', ''1-srp/good_srp.py'']\<rparr>
     (snd (iteration
       \<lparr>files = [''1-srp/bad_srp.py'' \<mapsto> Text ''B'', ''1-srp/good_srp.py'' \<mapsto> Text ''G''],
        stdin = [''1'', ''6''],
        out = menu_text @ prompt @ nl @ ''--- Bad Example ---'' @ nl @ ''B'' @ nl @
              nl @ ''--- Good Example ---'' @ nl @ ''G'' @ nl,
        opened = [''1-srp/bad_srp.py'', ''1-srp/good_srp.py'']\<rparr>)) =
     menu_text @ prompt @ nl @ ''--- Bad Example ---'' @ nl @ ''B'' @ nl @
       nl @ ''--- Good Example ---'' @ nl @ ''G'' @ nl"
proof -
  have s: "str_strip ''1'' = ''1''"
    by (simp add: str_strip_def isspace_def)
  have c: "principle_of (str_strip ''1'') = Some ''1-srp''"
    by (simp add: s principle_of_def)
  have it: "iteration
     \<lparr>files = [''1-srp/bad_srp.py'' \<mapsto> Text ''B'', ''1-srp/good_srp.py'' \<mapsto> Text ''G''],
      stdin = [''1'', ''1'', ''6''], out = [], opened = []\<rparr> =
     (Continue,
      \<lparr>files = [''1-srp/bad_srp.py'' \<mapsto> Text ''B'', ''1-srp/good_srp.py'' \<mapsto> Text ''G''],
       stdin = [''1'', ''6''],
       out = menu_text @ prompt @ nl @ ''--- Bad Example ---'' @ nl @ ''B'' @ nl @
             nl @ ''--- Good Example ---'' @ nl @ ''G'' @ nl,
       opened = [''1-srp/bad_srp.py'', ''1-srp/good_srp.py'']\<rparr>)"
    by (simp add: iteration_principle [OF _ c] run_example_cases [OF example_paths_five(1)])
  show ?thesis
    using repeated_selection_same_output [OF _ _ s s, of
        "\<lparr>files = [''1-srp/bad_srp.py'' \<mapsto> Text ''B'', ''1-srp/good_srp.py'' \<mapsto> Text ''G''],
          stdin = [''1'', ''1'', ''6''], out = [], opened = []\<rparr>"
        "[''1'', ''6'']"
        "\<lparr>files = [''1-srp/bad_srp.py'' \<mapsto> Text ''B'', ''1-srp/good_srp.py'' \<mapsto> Text ''G''],
          stdin = [''1'', ''6''],
          out = menu_text @ prompt @ nl @ ''--- Bad Example ---'' @ nl @ ''B'' @ nl @
                nl @ ''--- Good Example ---'' @ nl @ ''G'' @ nl,
          opened = [''1-srp/bad_srp.py'', ''1-srp/good_srp.py'']\<rparr>"
        "[''6'']"]
    by (simp add: it emitted_def)
qed

text \<open>
  C8, as amended. \<open>display_menu\<close> takes no input, always succeeds and changes nothing
  but standard output, to which it adds exactly eight fixed lines: the two banner lines
  and then the six option lines (the five principles and the exit).
\<close>

theorem display_menu_eight_lines:
  "display_menu w = w\<lparr>out := out w @ unlines (banner_lines @ option_lines)\<rparr> \<and>
   length banner_lines = 2 \<and> length option_lines = 6"
  by (simp add: display_menu_eq menu_text_def banner_lines_def option_lines_def)

text \<open>
  C8 as stated fails: what \<open>display_menu\<close> writes is not the six option lines; it has
  eight line ends.
\<close>

theorem display_menu_six_lines_counterexample:
  "out (display_menu \<lparr>files = Map.empty, stdin = [], out = [], opened = []\<rparr>)
     \<noteq> unlines option_lines \<and>
   length (filter (\<lambda>c. c = CHR 0x0A)
     (out (display_menu \<lparr>files = Map.empty, stdin = [], out = [], opened = []\<rparr>))) = 8"
  by (simp add: display_menu_def print_def unlines_def option_lines_def nl_def)

text \<open>
  C9. Each identifier \<open>main\<close> passes to \<open>load_example\<close> contains the separator \<open>-\<close>, so
  the split has two pieces, the subscript \<open>[1]\<close> is defined and \<open>load_example\<close> does not
  raise \<open>IndexError\<close>; no pass of the loop and no run of \<open>main\<close> ends with \<open>IndexError\<close>.
\<close>

theorem subscript_well_defined:
  "(\<forall>p \<in> set principle_ids.
      CHR ''-'' \<in> set p \<and>
      2 \<le> length (str_split p CHR ''-'') \<and>
      shortname p \<noteq> Inl IndexError \<and>
      (\<forall>w. fst (load_example p w) \<noteq> Inl IndexError)) \<and>
   (\<forall>w. fst (iteration w) \<noteq> Raise IndexError \<and> fst (main w) \<noteq> Raised IndexError)"
proof -
  have "CHR ''-'' \<in> set p \<and> 2 \<le> length (str_split p CHR ''-'') \<and>
      shortname p \<noteq> Inl IndexError \<and> (\<forall>w. fst (load_example p w) \<noteq> Inl IndexError)"
    if "p \<in> set principle_ids" for p
  proof -
    from that obtain b g where "example_paths p = Inr (b, g)"
      using principle_ids_paths by blast
    then have "\<forall>w. fst (load_example p w) \<noteq> Inl IndexError"
      using load_example_no_index_error by blast
    moreover have "CHR ''-'' \<in> set p \<and> 2 \<le> length (str_split p CHR ''-'') \<and>
        shortname p \<noteq> Inl IndexError"
      using that by (auto simp: principle_ids_def shortname_five str_split_def)
    ultimately show ?thesis by blast
  qed
  then show ?thesis
    using iteration_no_index_error main_no_index_error by blast
qed

text \<open>The identifier \<open>3-lsp\<close>.\<close>

theorem subscript_well_defined_witness:
  "CHR ''-'' \<in> set ''3-lsp'' \<and> str_split ''3-lsp'' CHR ''-'' = [''3'', ''lsp''] \<and>
   shortname ''3-lsp'' = Inr ''lsp'' \<and> shortname ''3-lsp'' \<noteq> Inl IndexError \<and>
   fst (load_example ''3-lsp'' \<lparr>files = Map.empty, stdin = [], out = [], opened = []\<rparr>)
     \<noteq> Inl IndexError"
proof -
  have m: "''3-lsp'' \<in> set principle_ids"
    by (simp add: principle_ids_def)
  have "fst (load_example ''3-lsp'' \<lparr>files = Map.empty, stdin = [], out = [], opened = []\<rparr>)
     \<noteq> Inl IndexError"
    using subscript_well_defined m by blast
  then show ?thesis
    by (simp add: shortname_five str_split_def)
qed

text \<open>
  C10. \<open>load_example\<close> is not atomic: when the bad file can be read and the good file is
  missing, the bad header and the whole text of the bad file (and the good header) are
  already on standard output when \<open>FileNotFoundError\<close> is raised for the good file.
\<close>

theorem load_example_not_atomic:
  assumes "example_paths p = Inr (b, g)"
    and "files w b = Some (Text cb)"
    and "files w g = None"
  shows "load_example p w =
     (Inl (FileNotFoundError g),
      w\<lparr>out := out w @ nl @ ''--- Bad Example ---'' @ nl @ cb @ nl @
             nl @ ''--- Good Example ---'' @ nl,
        opened := opened w @ [b, g]\<rparr>)"
  using assms by (simp add: load_example_cases)

text \<open>The identifier \<open>2-ocp\<close> with only its bad file present.\<close>

theorem load_example_not_atomic_witness:
  "example_paths ''2-ocp'' = Inr (''2-ocp/bad_ocp.py'', ''2-ocp/good_ocp.py'') \<and>
   load_example ''2-ocp''
     \<lparr>files = [''2-ocp/bad_ocp.py'' \<mapsto> Text ''B''], stdin = [], out = [], opened = []\<rparr> =
     (Inl (FileNotFoundError ''2-ocp/good_ocp.py''),
      \<lparr>files = [''2-ocp/bad_ocp.py'' \<mapsto> Text ''B''], stdin = [],
       out = nl @ ''--- Bad Example ---'' @ nl @ ''B'' @ nl @
             nl @ ''--- Good Example ---'' @ nl,
       opened = [''2-ocp/bad_ocp.py'', ''2-ocp/good_ocp.py'']\<rparr>)"
proof -
  have e: "example_paths ''2-ocp'' = Inr (''2-ocp/bad_ocp.py'', ''2-ocp/good_ocp.py'')"
    by (rule example_paths_five)
  show ?thesis
    using e load_example_not_atomic [OF e, of
        "\<lparr>files = [''2-ocp/bad_ocp.py'' \<mapsto> Text ''B''], stdin = [], out = [], opened = []\<rparr>"
        "''B''"]
    by simp
qed

end
